theory Spec2Isabelle
  imports Complex_Main "HOL-Library.Multiset" "HOL-Library.Sublist"
begin

section \<open>Data model\<close>

text \<open>
  The program is a script over one pandas table. A cell of a numeric column is a double:
  a finite number, an infinity or NaN (the missing value). A finite double is modelled by
  the real it denotes, so the sign of a zero is not part of the model; NaN and the
  infinities are. The scalar arithmetic of line 76 is modelled with the rounding of every
  operation (\<open>fl\<close> below); the arithmetic on whole columns of lines 90 and 124
  (\<open>cell_div\<close>, \<open>cell_mul\<close>) is modelled without it.
\<close>

datatype cell = Num real | PInf | NInf | NaN

text \<open>
  A row of the table after loading: the Year (the spec's data model and input format give
  integer years) and the value of every other column, by column name. \<open>val r c\<close> is read
  only for a name \<open>c\<close> among the columns of the table.
\<close>

record row =
  Year :: int
  val :: "string \<Rightarrow> cell"

text \<open>
  \<open>cols\<close> are the names of the columns other than the Year column, in table order;
  \<open>df.columns\<close> of the source is \<open>columns\<close> below.
\<close>

record frame =
  cols :: "string list"
  rows :: "row list"

definition columns :: "frame \<Rightarrow> string list" where
  "columns df = ''Year'' # cols df"

text \<open>
  What \<open>pd.read_csv\<close> hands over: the header names of the columns other than the Year
  column as they stand in the file, and for every line its year and the texts of its
  other fields, by position. A line with fewer fields than the header has the fields it
  lacks missing. The Year column is the column of integer years of the input format
  (spec, section 6); a file whose years are no integers is outside the model.
\<close>

record raw_row =
  raw_Year :: int
  texts :: "string list"

record raw_frame =
  header :: "string list"
  body :: "raw_row list"

text \<open>Exceptions a line of the script can raise; an exception ends the run.\<close>

datatype exn = ValueError | OverflowError | KeyError | ZeroDivisionError

text \<open>
  The messages the script shows and goes on, under the names the spec gives them:
  \<^item> \<open>InvalidRangeError\<close>: \<open>st.error("Dates don't work. Start year must be <= end year.")\<close>
  \<^item> \<open>EmptyRangeError\<close>: \<open>st.error("No data available for the selected year range.")\<close>
  \<^item> \<open>YearNotFoundError\<close>: \<open>st.error("Selected year(s) not found in the data.")\<close>
  \<^item> \<open>TotalNotShown\<close>: \<open>st.info("Percentage chart not shown for 'Total'.")\<close>
  \<^item> \<open>MissingTotalError\<close>: \<open>st.warning("Cannot compute percentages: 'Total' column is missing.")\<close>
  \<^item> \<open>NoSeries\<close>: \<open>st.info("Select at least one series to compare.")\<close>
\<close>

datatype notice =
  InvalidRangeError | EmptyRangeError | YearNotFoundError
  | TotalNotShown | MissingTotalError | NoSeries

definition message :: "notice \<Rightarrow> string" where
  "message n = (case n of
      InvalidRangeError \<Rightarrow> ''Dates don't work. Start year must be <= end year.''
    | EmptyRangeError \<Rightarrow> ''No data available for the selected year range.''
    | YearNotFoundError \<Rightarrow> ''Selected year(s) not found in the data.''
    | TotalNotShown \<Rightarrow> ''Percentage chart not shown for 'Total'.''
    | MissingTotalError \<Rightarrow> ''Cannot compute percentages: 'Total' column is missing.''
    | NoSeries \<Rightarrow> ''Select at least one series to compare.'')"

section \<open>Load and clean (lines 9 to 19)\<close>

text \<open>Line 10: a column is dropped when its name matches \<open>^Unnamed\<close>.\<close>

definition unnamed :: "string \<Rightarrow> bool" where
  "unnamed c = (take 7 c = ''Unnamed'')"

text \<open>Line 11: \<open>str.strip()\<close> removes the whitespace at both ends (ASCII whitespace here).\<close>

definition is_space :: "char \<Rightarrow> bool" where
  "is_space ch = (let n = of_char ch :: nat in (9 \<le> n \<and> n \<le> 13) \<or> (28 \<le> n \<and> n \<le> 32))"

definition strip :: "string \<Rightarrow> string" where
  "strip s = rev (dropWhile is_space (rev (dropWhile is_space s)))"

text \<open>
  Line 16: \<open>pd.to_numeric(..., errors="coerce")\<close>. The number parser of pandas is not
  part of the repository; it is the parameter \<open>parse\<close>, which gives the double a text
  denotes or \<open>None\<close> for a text that is no number.
\<close>

definition to_numeric :: "(string \<Rightarrow> cell option) \<Rightarrow> string \<Rightarrow> cell" where
  "to_numeric parse s = (case parse s of Some x \<Rightarrow> x | None \<Rightarrow> NaN)"

text \<open>The column names after lines 10 and 11, the Year column left out.\<close>

definition clean_names :: "string list \<Rightarrow> string list" where
  "clean_names hs = map strip (filter (\<lambda>c. \<not> unnamed c) hs)"

text \<open>
  One line of the file after lines 10 to 16: the fields of the dropped columns are gone,
  the other fields are found under the stripped name of their column, and every field of
  a column of \<open>num_cols\<close> is coerced. A field the line lacks is missing. The names of
  the header are taken to stay distinct once stripped; of two columns of one name the
  first is read.
\<close>

definition clean_row :: "(string \<Rightarrow> cell option) \<Rightarrow> string list \<Rightarrow> raw_row \<Rightarrow> row" where
  "clean_row parse hs r =
     (let kept = filter (\<lambda>(c, t). \<not> unnamed c) (zip hs (texts r));
          named = map (\<lambda>(c, t). (strip c, t)) kept;
          num_cols = filter (\<lambda>(c, t). c \<noteq> ''Year'') named;
          coerced = map (\<lambda>(c, t). (c, to_numeric parse t)) num_cols
      in \<lparr> Year = raw_Year r,
           val = (\<lambda>c. case map_of coerced c of Some v \<Rightarrow> v | None \<Rightarrow> NaN) \<rparr>)"

text \<open>
  Line 19: \<open>df.sort_values("Year").reset_index(drop=True)\<close>. The sort is modelled by the
  stable insertion sort of the library; the order pandas gives rows of equal Year is not
  promised by its default sort, and nothing below depends on it but through
  \<open>load_clean\<close> itself.
\<close>

definition load_clean :: "(string \<Rightarrow> cell option) \<Rightarrow> raw_frame \<Rightarrow> frame" where
  "load_clean parse raw =
     \<lparr> cols = clean_names (header raw),
       rows = sort_key Year (map (clean_row parse (header raw)) (body raw)) \<rparr>"

section \<open>Numbers of Python and pandas\<close>

text \<open>\<open>int(x)\<close> of a double: truncation towards zero; NaN and the infinities raise.\<close>

definition trunc :: "real \<Rightarrow> int" where
  "trunc x = (if 0 \<le> x then \<lfloor>x\<rfloor> else \<lceil>x\<rceil>)"

definition py_int :: "cell \<Rightarrow> exn + int" where
  "py_int v = (case v of
      Num x \<Rightarrow> Inr (trunc x)
    | NaN \<Rightarrow> Inl ValueError
    | PInf \<Rightarrow> Inl OverflowError
    | NInf \<Rightarrow> Inl OverflowError)"

text \<open>The nearest integer, a tie going to the even neighbour.\<close>

definition round_half_even :: "real \<Rightarrow> int" where
  "round_half_even x =
     (let f = \<lfloor>x\<rfloor>; d = x - of_int f
      in if d < 1 / 2 then f else if 1 / 2 < d then f + 1
         else if even f then f else f + 1)"

text \<open>
  The doubles (IEEE 754 binary64) around a real \<open>x\<close> other than zero are the multiples of
  \<open>ulp x\<close>: a significand of 53 bits for a normal number, and the multiples of
  \<open>2 powi (- 1074)\<close> below \<open>2 powi (- 1022)\<close>. \<open>fl x\<close> is the double nearest to \<open>x\<close>, a
  tie going to the even significand, before the check of the range: a result of magnitude
  \<open>2 ^ 1024\<close> or more is an overflow.
\<close>

definition ulp :: "real \<Rightarrow> real" where
  "ulp x = 2 powi (max (\<lfloor>log 2 \<bar>x\<bar>\<rfloor> - 52) (- 1074))"

definition fl :: "real \<Rightarrow> real" where
  "fl x = (if x = 0 then 0 else of_int (round_half_even (x / ulp x)) * ulp x)"

text \<open>An arithmetic operation on doubles overflows to an infinity.\<close>

definition overflow :: "real \<Rightarrow> cell" where
  "overflow y = (if 2 ^ 1024 \<le> y then PInf else if y \<le> - (2 ^ 1024) then NInf else Num y)"

text \<open>
  \<open>a / b\<close> on Python integers: the double nearest to the quotient, \<open>ZeroDivisionError\<close>
  for a zero divisor and \<open>OverflowError\<close> for a quotient too large for a double.
\<close>

definition true_div :: "int \<Rightarrow> int \<Rightarrow> exn + real" where
  "true_div a b =
     (if b = 0 then Inl ZeroDivisionError
      else (let q = fl (of_int a / of_int b)
            in if 2 ^ 1024 \<le> \<bar>q\<bar> then Inl OverflowError else Inr q))"

text \<open>\<open>x * y\<close> on two finite doubles.\<close>

definition float_mul :: "real \<Rightarrow> real \<Rightarrow> cell" where
  "float_mul x y = overflow (fl (x * y))"

text \<open>
  \<open>round(x, 2)\<close> on a double: NaN and the infinities are returned as they are; a finite
  \<open>x\<close> is rounded to two decimals, a tie going to the even neighbour, and the result is
  the double nearest to that decimal.
\<close>

definition round2 :: "cell \<Rightarrow> cell" where
  "round2 v = (case v of
      Num x \<Rightarrow> Num (fl (of_int (round_half_even (x * 100)) / 100))
    | PInf \<Rightarrow> PInf
    | NInf \<Rightarrow> NInf
    | NaN \<Rightarrow> NaN)"

text \<open>
  Division and multiplication of the cells of two columns, with the IEEE results at zero,
  infinity and NaN.
\<close>

fun cell_div :: "cell \<Rightarrow> cell \<Rightarrow> cell" where
  "cell_div NaN _ = NaN"
| "cell_div _ NaN = NaN"
| "cell_div (Num a) (Num b) =
     (if b = 0 then (if a = 0 then NaN else if 0 < a then PInf else NInf) else Num (a / b))"
| "cell_div (Num a) PInf = Num 0"
| "cell_div (Num a) NInf = Num 0"
| "cell_div PInf (Num b) = (if 0 \<le> b then PInf else NInf)"
| "cell_div NInf (Num b) = (if 0 \<le> b then NInf else PInf)"
| "cell_div PInf PInf = NaN"
| "cell_div PInf NInf = NaN"
| "cell_div NInf PInf = NaN"
| "cell_div NInf NInf = NaN"

fun cell_mul :: "cell \<Rightarrow> cell \<Rightarrow> cell" where
  "cell_mul NaN _ = NaN"
| "cell_mul _ NaN = NaN"
| "cell_mul (Num a) (Num b) = Num (a * b)"
| "cell_mul (Num a) PInf = (if a = 0 then NaN else if 0 < a then PInf else NInf)"
| "cell_mul (Num a) NInf = (if a = 0 then NaN else if 0 < a then NInf else PInf)"
| "cell_mul PInf (Num b) = (if b = 0 then NaN else if 0 < b then PInf else NInf)"
| "cell_mul NInf (Num b) = (if b = 0 then NaN else if 0 < b then NInf else PInf)"
| "cell_mul PInf PInf = PInf"
| "cell_mul PInf NInf = NInf"
| "cell_mul NInf PInf = NInf"
| "cell_mul NInf NInf = PInf"

section \<open>Year bounds (lines 27 and 28)\<close>

text \<open>
  \<open>df["Year"].min()\<close> and \<open>.max()\<close>: pandas gives NaN for a column with no value, and
  \<open>int\<close> of it raises.
\<close>

definition series_min :: "int list \<Rightarrow> cell" where
  "series_min ys = (case ys of [] \<Rightarrow> NaN | y # ys' \<Rightarrow> Num (of_int (fold min ys' y)))"

definition series_max :: "int list \<Rightarrow> cell" where
  "series_max ys = (case ys of [] \<Rightarrow> NaN | y # ys' \<Rightarrow> Num (of_int (fold max ys' y)))"

definition min_year :: "frame \<Rightarrow> exn + int" where
  "min_year df = py_int (series_min (map Year (rows df)))"

definition max_year :: "frame \<Rightarrow> exn + int" where
  "max_year df = py_int (series_max (map Year (rows df)))"

definition year_bounds :: "frame \<Rightarrow> exn + int \<times> int" where
  "year_bounds df =
     (case min_year df of Inl x \<Rightarrow> Inl x | Inr lo \<Rightarrow>
      case max_year df of Inl x \<Rightarrow> Inl x | Inr hi \<Rightarrow> Inr (lo, hi))"

section \<open>Column access and the filtered view (lines 53 and 54)\<close>

text \<open>
  The value of a row in a column: the year, as a number, in the Year column and
  \<open>val\<close> in any other.
\<close>

definition cell_at :: "row \<Rightarrow> string \<Rightarrow> cell" where
  "cell_at r c = (if c = ''Year'' then Num (of_int (Year r)) else val r c)"

text \<open>\<open>df[c]\<close>: the values of a column, \<open>KeyError\<close> for a name that is no column.\<close>

definition getitem :: "frame \<Rightarrow> string \<Rightarrow> exn + cell list" where
  "getitem df c =
     (if c \<in> set (columns df) then Inr (map (\<lambda>r. cell_at r c) (rows df)) else Inl KeyError)"

text \<open>\<open>df.loc[df["Year"] == y, c]\<close> (lines 68 and 69).\<close>

definition loc_year :: "frame \<Rightarrow> int \<Rightarrow> string \<Rightarrow> exn + cell list" where
  "loc_year df y c = getitem (df\<lparr>rows := filter (\<lambda>r. Year r = y) (rows df)\<rparr>) c"

text \<open>\<open>mask = (df["Year"] >= start_year) & (df["Year"] <= end_year)\<close>, \<open>df.loc[mask]\<close>.\<close>

definition filtered_df :: "frame \<Rightarrow> int \<Rightarrow> int \<Rightarrow> frame" where
  "filtered_df df start_year end_year =
     df\<lparr>rows := filter (\<lambda>r. Year r \<ge> start_year \<and> Year r \<le> end_year) (rows df)\<rparr>"

section \<open>Tab 1: population change (lines 62 to 99)\<close>

record metrics =
  initial_value :: int
  final_value :: int
  percent_change :: cell

text \<open>
  The expression of line 76:
  \<open>round((final - initial) / initial * 100, 2) if initial != 0 else 0.0\<close>. The difference
  is exact on Python integers, \<open>/\<close> is true division to a double, \<open>* 100\<close> a
  multiplication of doubles.
\<close>

definition pct_change :: "int \<Rightarrow> int \<Rightarrow> exn + cell" where
  "pct_change initial final =
     (if initial \<noteq> 0 then
        (case true_div (final - initial) initial of
           Inl x \<Rightarrow> Inl x
         | Inr q \<Rightarrow> Inr (round2 (float_mul q 100)))
      else Inr (Num 0))"

text \<open>Lines 68 to 78, the two metrics of the first column.\<close>

definition change_metrics :: "frame \<Rightarrow> int \<Rightarrow> int \<Rightarrow> string \<Rightarrow> exn + (notice + metrics)" where
  "change_metrics df start_year end_year target =
     (case loc_year df start_year target of Inl x \<Rightarrow> Inl x | Inr initial_val \<Rightarrow>
      case loc_year df end_year target of Inl x \<Rightarrow> Inl x | Inr final_val \<Rightarrow>
      (case (initial_val, final_val) of
         (i # _, f # _) \<Rightarrow>
           (case py_int i of Inl x \<Rightarrow> Inl x | Inr initial \<Rightarrow>
            case py_int f of Inl x \<Rightarrow> Inl x | Inr final \<Rightarrow>
            case pct_change initial final of Inl x \<Rightarrow> Inl x | Inr pct \<Rightarrow>
              Inr (Inr \<lparr> initial_value = initial, final_value = final,
                         percent_change = pct \<rparr>))
       | _ \<Rightarrow> Inr (Inl YearNotFoundError)))"

text \<open>A line plot is the list of its points, one for each row: the Year and the value.\<close>

type_synonym series = "(int \<times> cell) list"

definition plot :: "frame \<Rightarrow> cell list \<Rightarrow> series" where
  "plot df ys = zip (map Year (rows df)) ys"

text \<open>\<open>(filtered_df[c] / filtered_df["Total"]) * 100.0\<close> (lines 90 and 124).\<close>

definition pct_series :: "frame \<Rightarrow> string \<Rightarrow> exn + cell list" where
  "pct_series df c =
     (case getitem df c of Inl x \<Rightarrow> Inl x | Inr vs \<Rightarrow>
      case getitem df ''Total'' of Inl x \<Rightarrow> Inl x | Inr ts \<Rightarrow>
        Inr (map (\<lambda>(v, t). cell_mul (cell_div v t) (Num 100)) (zip vs ts)))"

text \<open>Lines 89 to 99: the chart of the target as a share of Total, the notice, or nothing.\<close>

definition pct_chart :: "frame \<Rightarrow> string \<Rightarrow> exn + (notice + series) option" where
  "pct_chart df target =
     (if ''Total'' \<in> set (columns df) \<and> target \<noteq> ''Total'' then
        (case pct_series df target of Inl x \<Rightarrow> Inl x
         | Inr ps \<Rightarrow> Inr (Some (Inr (plot df ps))))
      else if target = ''Total'' then Inr (Some (Inl TotalNotShown))
      else Inr None)"

record tab1_out =
  change :: "notice + metrics"
  trend :: series
  share :: "(notice + series) option"

definition tab1 :: "frame \<Rightarrow> frame \<Rightarrow> int \<Rightarrow> int \<Rightarrow> string \<Rightarrow> exn + tab1_out" where
  "tab1 df fdf start_year end_year target =
     (case change_metrics df start_year end_year target of Inl x \<Rightarrow> Inl x | Inr m \<Rightarrow>
      case getitem fdf target of Inl x \<Rightarrow> Inl x | Inr ys \<Rightarrow>
      case pct_chart fdf target of Inl x \<Rightarrow> Inl x | Inr p \<Rightarrow>
        Inr \<lparr> change = m, trend = plot fdf ys, share = p \<rparr>)"

section \<open>Tab 2: comparison (lines 102 to 135)\<close>

text \<open>A chart with one labelled line for each selected series, drawn in order.\<close>

fun lines_of :: "(string \<Rightarrow> exn + cell list) \<Rightarrow> frame \<Rightarrow> string list \<Rightarrow> exn + (string \<times> series) list" where
  "lines_of f df [] = Inr []"
| "lines_of f df (each # rest) =
     (case f each of Inl x \<Rightarrow> Inl x | Inr ys \<Rightarrow>
      case lines_of f df rest of Inl x \<Rightarrow> Inl x | Inr ls \<Rightarrow> Inr ((each, plot df ys) # ls))"

text \<open>Line 106, the options of the multiselect.\<close>

definition compare_options :: "frame \<Rightarrow> string list" where
  "compare_options df = filter (\<lambda>c. c \<noteq> ''Year'' \<and> c \<noteq> ''Total'') (columns df)"

record compare_out =
  absolute :: "(string \<times> series) list"
  percent :: "notice + (string \<times> series) list"

text \<open>Lines 121 to 133.\<close>

definition pct_compare :: "frame \<Rightarrow> string list \<Rightarrow> exn + (notice + (string \<times> series) list)" where
  "pct_compare fdf compare_targets =
     (if ''Total'' \<in> set (columns fdf) then
        (case lines_of (pct_series fdf) fdf compare_targets of Inl x \<Rightarrow> Inl x
         | Inr ls \<Rightarrow> Inr (Inr ls))
      else Inr (Inl MissingTotalError))"

definition tab2 :: "frame \<Rightarrow> string list \<Rightarrow> exn + (notice + compare_out)" where
  "tab2 fdf compare_targets =
     (if compare_targets \<noteq> [] then
        (case lines_of (getitem fdf) fdf compare_targets of Inl x \<Rightarrow> Inl x | Inr abs_lines \<Rightarrow>
         case pct_compare fdf compare_targets of Inl x \<Rightarrow> Inl x | Inr p \<Rightarrow>
           Inr (Inr \<lparr> absolute = abs_lines, percent = p \<rparr>))
      else Inr (Inl NoSeries))"

section \<open>Validation and the run of the script (lines 50 to 135)\<close>

text \<open>
  The choices of the widgets are parameters: \<open>start_year\<close>, \<open>end_year\<close>, \<open>target\<close> and
  \<open>compare_targets\<close>.
\<close>

definition analyze ::
  "frame \<Rightarrow> int \<Rightarrow> int \<Rightarrow> string \<Rightarrow> string list \<Rightarrow> exn + (notice + tab1_out \<times> (notice + compare_out))" where
  "analyze df start_year end_year target compare_targets =
     (if start_year > end_year then Inr (Inl InvalidRangeError)
      else
        (let fdf = filtered_df df start_year end_year
         in if rows fdf = [] then Inr (Inl EmptyRangeError)
            else
              (case tab1 df fdf start_year end_year target of Inl x \<Rightarrow> Inl x | Inr t1 \<Rightarrow>
               case tab2 fdf compare_targets of Inl x \<Rightarrow> Inl x | Inr t2 \<Rightarrow>
                 Inr (Inr (t1, t2)))))"

text \<open>
  The whole script: load, year bounds for the sliders, then the analysis. The widgets of
  lines 30 to 47 hand over the choices of the user; what Streamlit itself checks of the
  arguments of a widget is not in the repository and not modelled.
\<close>

definition script ::
  "(string \<Rightarrow> cell option) \<Rightarrow> raw_frame \<Rightarrow> int \<Rightarrow> int \<Rightarrow> string \<Rightarrow> string list
     \<Rightarrow> exn + (notice + tab1_out \<times> (notice + compare_out))" where
  "script parse raw start_year end_year target compare_targets =
     (let df = load_clean parse raw
      in case year_bounds df of Inl x \<Rightarrow> Inl x
         | Inr b \<Rightarrow> analyze df start_year end_year target compare_targets)"

section \<open>The percentage in the spec's words\<close>


section \<open>Example inputs\<close>

text \<open>
  A parser for the examples: it reads the unsigned decimal integers, a part of what
  pandas reads as numbers, and nothing else.
\<close>

definition digit :: "char \<Rightarrow> bool" where
  "digit ch = (let n = of_char ch :: nat in 48 \<le> n \<and> n \<le> 57)"

definition decimal :: "string \<Rightarrow> cell option" where
  "decimal s =
     (if s \<noteq> [] \<and> list_all digit s
      then Some (Num (of_nat (fold (\<lambda>ch n. 10 * n + (of_char ch - 48)) s 0)))
      else None)"

text \<open>
  The example of the spec (section 8), as a file: an index column left by an earlier
  export, a padded header, and the lines out of order.
\<close>

definition example_raw :: raw_frame where
  "example_raw =
     \<lparr> header = [''Unnamed: 0'', ''Total'', '' Black ''],
       body = [ \<lparr> raw_Year = 2020, texts = [''1'', ''39368078'', ''2184000''] \<rparr>,
                \<lparr> raw_Year = 2015, texts = [''0'', ''39144818'', ''2200000''] \<rparr> ] \<rparr>"

definition example_df :: frame where
  "example_df = load_clean decimal example_raw"

text \<open>The same file with a cell of the Black column that is no number.\<close>

definition gap_raw :: raw_frame where
  "gap_raw =
     \<lparr> header = [''Total'', ''Black''],
       body = [ \<lparr> raw_Year = 2015, texts = [''39144818'', ''unknown''] \<rparr>,
                \<lparr> raw_Year = 2020, texts = [''39368078'', ''2184000''] \<rparr> ] \<rparr>"

text \<open>A file with two lines for the year 2015.\<close>

definition repeated_raw :: raw_frame where
  "repeated_raw =
     \<lparr> header = [''Total'', ''Black''],
       body = [ \<lparr> raw_Year = 2020, texts = [''39368078'', ''2184000''] \<rparr>,
                \<lparr> raw_Year = 2015, texts = [''39144818'', ''2200000''] \<rparr>,
                \<lparr> raw_Year = 2015, texts = [''39144818'', ''1092000''] \<rparr> ] \<rparr>"

text \<open>A file with no Total column, and a file with a header and no line.\<close>

definition no_total_raw :: raw_frame where
  "no_total_raw =
     \<lparr> header = [''Black'', ''Asian''],
       body = [ \<lparr> raw_Year = 2015, texts = [''2200000'', ''5400000''] \<rparr>,
                \<lparr> raw_Year = 2020, texts = [''2184000'', ''5900000''] \<rparr> ] \<rparr>"

definition empty_raw :: raw_frame where
  "empty_raw = \<lparr> header = [''Total'', ''Black''], body = [] \<rparr>"

text \<open>A file with a category that is zero in 2015.\<close>

definition zero_raw :: raw_frame where
  "zero_raw =
     \<lparr> header = [''Total'', ''Other''],
       body = [ \<lparr> raw_Year = 2015, texts = [''39144818'', ''0''] \<rparr>,
                \<lparr> raw_Year = 2020, texts = [''39368078'', ''12''] \<rparr> ] \<rparr>"

definition zero_df :: frame where
  "zero_df = load_clean decimal zero_raw"

text \<open>The file of the example with a cell of the Black column of 2020 that is no number.\<close>

definition gap_end_raw :: raw_frame where
  "gap_end_raw =
     \<lparr> header = [''Total'', ''Black''],
       body = [ \<lparr> raw_Year = 2015, texts = [''39144818'', ''2200000''] \<rparr>,
                \<lparr> raw_Year = 2020, texts = [''39368078'', ''unknown''] \<rparr> ] \<rparr>"

definition gap_end_df :: frame where
  "gap_end_df = load_clean decimal gap_end_raw"

definition gap_df :: frame where
  "gap_df = load_clean decimal gap_raw"

definition repeated_df :: frame where
  "repeated_df = load_clean decimal repeated_raw"

definition no_total_df :: frame where
  "no_total_df = load_clean decimal no_total_raw"

section \<open>Basic facts\<close>

lemma trunc_of_int: "trunc (of_int n) = n"
  by (simp add: trunc_def)

lemma columns_filtered: "columns (filtered_df df s e) = columns df"
  by (simp add: columns_def filtered_df_def)

lemma loc_year_col:
  "c \<in> set (columns df) \<Longrightarrow>
     loc_year df y c = Inr (map (\<lambda>r. cell_at r c) (filter (\<lambda>r. Year r = y) (rows df)))"
  by (simp add: loc_year_def getitem_def columns_def)

lemma filter_first:
  "\<forall>x\<in>set pre. \<not> P x \<Longrightarrow> P r \<Longrightarrow> filter P (pre @ r # post) = r # filter P post"
  by (induction pre) auto

lemma find_filter: "find P xs = Some r \<Longrightarrow> \<exists>rest. filter P xs = r # rest"
  by (induction xs) (auto split: if_splits)

lemma filter_empty_image: "filter (\<lambda>r. f r = y) xs = [] \<longleftrightarrow> y \<notin> f ` set xs"
  by (induction xs) auto

lemma fold_min_Min: "fold min ys (y::int) = Min (set (y # ys))"
  using Min.set_eq_fold [of y ys] by simp

lemma fold_max_Max: "fold max ys (y::int) = Max (set (y # ys))"
  using Max.set_eq_fold [of y ys] by simp

lemma plot_map: "plot df (map g (rows df)) = map (\<lambda>r. (Year r, g r)) (rows df)"
  by (simp add: plot_def zip_map_map zip_same_conv_map)

lemma lines_of_map:
  "\<forall>c\<in>set cs. f c = Inr (map (g c) (rows df)) \<Longrightarrow>
     lines_of f df cs = Inr (map (\<lambda>c. (c, map (\<lambda>r. (Year r, g c r)) (rows df))) cs)"
  by (induction cs) (simp_all add: plot_map)

lemma compare_options_columns: "c \<in> set (compare_options df) \<Longrightarrow> c \<in> set (columns df)"
  by (simp add: compare_options_def)

lemma Year_clean_row: "Year (clean_row parse hs r) = raw_Year r"
  by (simp add: clean_row_def Let_def)

section \<open>The arithmetic of line 76\<close>

lemma powr_powi: "(2::real) powr of_int e = 2 powi e"
  by (simp add: powr_real_of_int power_int_def power_one_over inverse_eq_divide)

lemma floor_log2_eq:
  assumes "2 powi e \<le> \<bar>x\<bar>" and "\<bar>x\<bar> < 2 powi (e + 1)"
  shows "\<lfloor>log 2 \<bar>x\<bar>\<rfloor> = e"
proof -
  have p: "0 < \<bar>x\<bar>"
    using assms(1) by (smt (verit) zero_less_power_int)
  have "real_of_int e + 1 = of_int (e + 1)"
    by simp
  then have b: "(2::real) powr (of_int e + 1) = 2 powi (e + 1)"
    by (simp only: powr_powi)
  show ?thesis
    using assms p by (simp add: floor_log_eq_powr_iff powr_powi b)
qed

text \<open>The double nearest to a real of binary exponent \<open>e\<close>.\<close>

lemma fl_eval:
  assumes "2 powi e \<le> \<bar>x\<bar>" and "\<bar>x\<bar> < 2 powi (e + 1)"
  shows "fl x = of_int (round_half_even (x / 2 powi (max (e - 52) (- 1074))))
                  * 2 powi (max (e - 52) (- 1074))"
proof -
  have "x \<noteq> 0" using assms(1) by (smt (verit) zero_less_power_int)
  then show ?thesis by (simp add: fl_def ulp_def floor_log2_eq [OF assms])
qed

lemma pct_change_zero: "pct_change 0 final = Inr (Num 0)"
  by (simp add: pct_change_def)

text \<open>The percent change step by step: quotient, product, decimal, nearest double.\<close>

lemma pct_change_eval:
  assumes "initial \<noteq> 0"
    and "fl (of_int (final - initial) / of_int initial) = q" and "\<bar>q\<bar> < 2 ^ 1024"
    and "fl (q * 100) = m" and "\<bar>m\<bar> < 2 ^ 1024"
    and "round_half_even (m * 100) = n" and "fl (of_int n / 100) = r"
  shows "pct_change initial final = Inr (Num r)"
proof -
  have d: "true_div (final - initial) initial = Inr q"
    using assms(1,2,3) by (simp add: true_div_def Let_def)
  have "float_mul q 100 = Num m"
    using assms(4,5) by (auto simp: float_mul_def overflow_def)
  then have "round2 (float_mul q 100) = Num r"
    using assms(6,7) by (simp add: round2_def)
  with d assms(1) show ?thesis
    by (simp add: pct_change_def)
qed

text \<open>The example of the spec: \<open>round((2184000 - 2200000) / 2200000 * 100, 2)\<close> is the double \<open>-0.73\<close>.\<close>

lemma pct_change_example:
  "pct_change 2200000 2184000 = Inr (Num (- 1643813863990231 / 2251799813685248)) \<and>
   fl (- 73 / 100) = - 1643813863990231 / 2251799813685248"
proof -
  have i: "(2200000::int) \<noteq> 0"
    by simp
  have q: "fl (of_int (2184000 - 2200000) / of_int 2200000) = - 4192441834933989 / 576460752303423488"
    using fl_eval [of "-8" "- 2 / 275"]
    by (simp add: round_half_even_def Let_def power_int_minus)
  have qb: "\<bar>- 4192441834933989 / 576460752303423488 :: real\<bar> < 2 ^ 1024"
    by simp
  have m: "fl (- 4192441834933989 / 576460752303423488 * 100) = - 3275345183542179 / 4503599627370496"
    using fl_eval [of "-1" "- 4192441834933989 / 576460752303423488 * 100"]
    by (simp add: round_half_even_def Let_def power_int_minus)
  have mb: "\<bar>- 3275345183542179 / 4503599627370496 :: real\<bar> < 2 ^ 1024"
    by simp
  have n: "round_half_even (- 3275345183542179 / 4503599627370496 * 100) = - 73"
    by (simp add: round_half_even_def Let_def)
  have r: "fl (of_int (- 73) / 100) = - 1643813863990231 / 2251799813685248"
    using fl_eval [of "-1" "- 73 / 100"]
    by (simp add: round_half_even_def Let_def power_int_minus)
  have r': "fl (- 73 / 100) = - 1643813863990231 / 2251799813685248"
    using r by simp
  from pct_change_eval [OF i q qb m mb n r] r' show ?thesis
    by simp
qed

text \<open>From 160 to 183 the quotient is no double and the product is just below 14.375: Python gives \<open>14.37\<close>.\<close>

lemma pct_change_160_183:
  "pct_change 160 183 = Inr (Num (8089590830664253 / 562949953421312)) \<and>
   fl (1437 / 100) = 8089590830664253 / 562949953421312"
proof -
  have i: "(160::int) \<noteq> 0"
    by simp
  have q: "fl (of_int (183 - 160) / of_int 160) = 2589569785738035 / 18014398509481984"
    using fl_eval [of "-3" "23 / 160"]
    by (simp add: round_half_even_def Let_def power_int_minus)
  have qb: "\<bar>2589569785738035 / 18014398509481984 :: real\<bar> < 2 ^ 1024"
    by simp
  have m: "fl (2589569785738035 / 18014398509481984 * 100) = 8092405580431359 / 562949953421312"
    using fl_eval [of "3" "2589569785738035 / 18014398509481984 * 100"]
    by (simp add: round_half_even_def Let_def power_int_minus)
  have mb: "\<bar>8092405580431359 / 562949953421312 :: real\<bar> < 2 ^ 1024"
    by simp
  have n: "round_half_even (8092405580431359 / 562949953421312 * 100) = 1437"
    by (simp add: round_half_even_def Let_def)
  have r: "fl (of_int (1437) / 100) = 8089590830664253 / 562949953421312"
    using fl_eval [of "3" "1437 / 100"]
    by (simp add: round_half_even_def Let_def power_int_minus)
  have r': "fl (1437 / 100) = 8089590830664253 / 562949953421312"
    using r by simp
  from pct_change_eval [OF i q qb m mb n r] r' show ?thesis
    by simp
qed

text \<open>From 20000 to 20001 the product is just above 0.005 and is rounded up: \<open>0.01\<close>.\<close>

lemma pct_change_20000_20001:
  "pct_change 20000 20001 = Inr (Num (5764607523034235 / 576460752303423488)) \<and>
   fl (1 / 100) = 5764607523034235 / 576460752303423488"
proof -
  have i: "(20000::int) \<noteq> 0"
    by simp
  have q: "fl (of_int (20001 - 20000) / of_int 20000) = 7378697629483821 / 147573952589676412928"
    using fl_eval [of "-15" "1 / 20000"]
    by (simp add: round_half_even_def Let_def power_int_minus)
  have qb: "\<bar>7378697629483821 / 147573952589676412928 :: real\<bar> < 2 ^ 1024"
    by simp
  have m: "fl (7378697629483821 / 147573952589676412928 * 100) = 5764607523034235 / 1152921504606846976"
    using fl_eval [of "-8" "7378697629483821 / 147573952589676412928 * 100"]
    by (simp add: round_half_even_def Let_def power_int_minus)
  have mb: "\<bar>5764607523034235 / 1152921504606846976 :: real\<bar> < 2 ^ 1024"
    by simp
  have n: "round_half_even (5764607523034235 / 1152921504606846976 * 100) = 1"
    by (simp add: round_half_even_def Let_def)
  have r: "fl (of_int (1) / 100) = 5764607523034235 / 576460752303423488"
    using fl_eval [of "-7" "1 / 100"]
    by (simp add: round_half_even_def Let_def power_int_minus)
  have r': "fl (1 / 100) = 5764607523034235 / 576460752303423488"
    using r by simp
  from pct_change_eval [OF i q qb m mb n r] r' show ?thesis
    by simp
qed

text \<open>From 32 to 33 the product is 3.125, a tie: the even neighbour \<open>3.12\<close>.\<close>

lemma pct_change_32_33:
  "pct_change 32 33 = Inr (Num (3512807709348987 / 1125899906842624)) \<and>
   fl (312 / 100) = 3512807709348987 / 1125899906842624"
proof -
  have i: "(32::int) \<noteq> 0"
    by simp
  have q: "fl (of_int (33 - 32) / of_int 32) = 1 / 32"
    using fl_eval [of "-5" "1 / 32"]
    by (simp add: round_half_even_def Let_def power_int_minus)
  have qb: "\<bar>1 / 32 :: real\<bar> < 2 ^ 1024"
    by simp
  have m: "fl (1 / 32 * 100) = 25 / 8"
    using fl_eval [of "1" "1 / 32 * 100"]
    by (simp add: round_half_even_def Let_def power_int_minus)
  have mb: "\<bar>25 / 8 :: real\<bar> < 2 ^ 1024"
    by simp
  have n: "round_half_even (25 / 8 * 100) = 312"
    by (simp add: round_half_even_def Let_def)
  have r: "fl (of_int (312) / 100) = 3512807709348987 / 1125899906842624"
    using fl_eval [of "1" "78 / 25"]
    by (simp add: round_half_even_def Let_def power_int_minus)
  have r': "fl (312 / 100) = 3512807709348987 / 1125899906842624"
    using r by simp
  from pct_change_eval [OF i q qb m mb n r] r' show ?thesis
    by simp
qed

text \<open>From 32 to 35 the product is 9.375, a tie: the even neighbour \<open>9.38\<close>.\<close>

lemma pct_change_32_35:
  "pct_change 32 35 = Inr (Num (5280470563091907 / 562949953421312)) \<and>
   fl (938 / 100) = 5280470563091907 / 562949953421312"
proof -
  have i: "(32::int) \<noteq> 0"
    by simp
  have q: "fl (of_int (35 - 32) / of_int 32) = 3 / 32"
    using fl_eval [of "-4" "3 / 32"]
    by (simp add: round_half_even_def Let_def power_int_minus)
  have qb: "\<bar>3 / 32 :: real\<bar> < 2 ^ 1024"
    by simp
  have m: "fl (3 / 32 * 100) = 75 / 8"
    using fl_eval [of "3" "3 / 32 * 100"]
    by (simp add: round_half_even_def Let_def power_int_minus)
  have mb: "\<bar>75 / 8 :: real\<bar> < 2 ^ 1024"
    by simp
  have n: "round_half_even (75 / 8 * 100) = 938"
    by (simp add: round_half_even_def Let_def)
  have r: "fl (of_int (938) / 100) = 5280470563091907 / 562949953421312"
    using fl_eval [of "3" "469 / 50"]
    by (simp add: round_half_even_def Let_def power_int_minus)
  have r': "fl (938 / 100) = 5280470563091907 / 562949953421312"
    using r by simp
  from pct_change_eval [OF i q qb m mb n r] r' show ?thesis
    by simp
qed

text \<open>A quotient of magnitude \<open>2 ^ 1024\<close> is too large for a double.\<close>

lemma true_div_overflow: "true_div (2 ^ 1024) 1 = Inl OverflowError"
proof -
  have "fl (2 ^ 1024) = 2 ^ 1024"
    using fl_eval [of 1024 "2 ^ 1024"]
    by (simp add: round_half_even_def Let_def)
  then show ?thesis
    by (simp add: true_div_def Let_def)
qed

text \<open>A product of magnitude \<open>2 ^ 1024\<close> or more is an infinity, and \<open>round\<close> keeps it.\<close>

lemma pct_change_overflow: "pct_change 1 (2 ^ 1020 + 1) = Inr PInf"
proof -
  have q: "fl (2 ^ 1020) = 2 ^ 1020"
    using fl_eval [of 1020 "2 ^ 1020"]
    by (simp add: round_half_even_def Let_def)
  have m: "fl (2 ^ 1020 * 100) = 2 ^ 1020 * 100"
    using fl_eval [of 1026 "2 ^ 1020 * 100"]
    by (simp add: round_half_even_def Let_def)
  have d: "true_div (2 ^ 1020 + 1 - 1) 1 = Inr (2 ^ 1020)"
    using q by (simp add: true_div_def Let_def)
  have "float_mul (2 ^ 1020) 100 = PInf"
    using m by (simp add: float_mul_def overflow_def)
  with d show ?thesis
    by (simp add: pct_change_def round2_def)
qed

text \<open>Below \<open>2 powi (- 1022)\<close> the doubles are the multiples of \<open>2 powi (- 1074)\<close>.\<close>

lemma true_div_subnormal:
  "true_div 1 (3 * 2 ^ 1073) = Inr (2 powi (- 1074)) \<and> true_div 1 (2 ^ 1075) = Inr 0"
proof -
  have a: "fl (1 / (3 * 2 ^ 1073)) = 2 powi (- 1074)"
    using fl_eval [of "- 1075" "1 / (3 * 2 ^ 1073)"]
    by (simp add: round_half_even_def Let_def power_int_minus)
  have b: "fl (1 / 2 ^ 1075) = 0"
    using fl_eval [of "- 1075" "1 / 2 ^ 1075"]
    by (simp add: round_half_even_def Let_def power_int_minus)
  from a b show ?thesis
    by (simp add: true_div_def Let_def power_int_minus)
qed

section \<open>Year bounds\<close>

lemma min_year_nonempty:
  "rows df \<noteq> [] \<Longrightarrow> min_year df = Inr (Min (Year ` set (rows df)))"
  by (cases "rows df")
    (simp_all add: min_year_def series_min_def py_int_def trunc_of_int fold_min_Min)

lemma max_year_nonempty:
  "rows df \<noteq> [] \<Longrightarrow> max_year df = Inr (Max (Year ` set (rows df)))"
  by (cases "rows df")
    (simp_all add: max_year_def series_max_def py_int_def trunc_of_int fold_max_Max)

lemma min_year_empty: "rows df = [] \<Longrightarrow> min_year df = Inl ValueError"
  by (simp add: min_year_def series_min_def py_int_def)

text \<open>
  C9: the year bounds are defined only for a table with at least one row. On a table with
  no row \<open>int(df["Year"].min())\<close> raises, and with it the whole script, whatever the
  choices of the user; on a table with rows the bounds are the least and the greatest Year.
\<close>

theorem year_bounds_defined:
  "(rows df = [] \<longrightarrow> year_bounds df = Inl ValueError) \<and>
   (rows df \<noteq> [] \<longrightarrow>
      year_bounds df = Inr (Min (Year ` set (rows df)), Max (Year ` set (rows df)))) \<and>
   (body raw = [] \<longrightarrow>
      script parse raw start_year end_year target compare_targets = Inl ValueError)"
  by (simp add: year_bounds_def min_year_empty min_year_nonempty max_year_nonempty
      script_def load_clean_def)

section \<open>Validation and filter\<close>

text \<open>
  C3: with \<open>start_year > end_year\<close> the analysis is the InvalidRangeError notice and nothing
  else, whatever the table holds (no filter, no metric, no clamped or swapped years); with
  \<open>start_year \<le> end_year\<close> it is never that notice, and it is what the filter and the two
  tabs compute.
\<close>

theorem validate_range:
  "(start_year > end_year \<longrightarrow>
      analyze df start_year end_year target compare_targets = Inr (Inl InvalidRangeError)) \<and>
   (start_year \<le> end_year \<longrightarrow>
      analyze df start_year end_year target compare_targets \<noteq> Inr (Inl InvalidRangeError) \<and>
      analyze df start_year end_year target compare_targets =
        (if rows (filtered_df df start_year end_year) = [] then Inr (Inl EmptyRangeError)
         else (case tab1 df (filtered_df df start_year end_year) start_year end_year target of
                 Inl x \<Rightarrow> Inl x
               | Inr t1 \<Rightarrow> (case tab2 (filtered_df df start_year end_year) compare_targets of
                   Inl x \<Rightarrow> Inl x | Inr t2 \<Rightarrow> Inr (Inr (t1, t2))))))"
  by (auto simp: analyze_def Let_def split: sum.splits)

text \<open>
  C4: for \<open>start_year \<le> end_year\<close> the filtered view keeps the columns and holds exactly the
  rows with \<open>start_year \<le> Year \<le> end_year\<close>, in the order of the table, and the analysis is
  the EmptyRangeError notice if and only if no row is in the range.
\<close>

theorem filter_view:
  assumes "start_year \<le> end_year"
  shows "rows (filtered_df df start_year end_year)
           = filter (\<lambda>r. start_year \<le> Year r \<and> Year r \<le> end_year) (rows df) \<and>
         subseq (rows (filtered_df df start_year end_year)) (rows df) \<and>
         columns (filtered_df df start_year end_year) = columns df \<and>
         (analyze df start_year end_year target compare_targets = Inr (Inl EmptyRangeError)
           \<longleftrightarrow> (\<forall>r\<in>set (rows df). \<not> (start_year \<le> Year r \<and> Year r \<le> end_year)))"
proof -
  have "analyze df start_year end_year target compare_targets = Inr (Inl EmptyRangeError)
           \<longleftrightarrow> filter (\<lambda>r. start_year \<le> Year r \<and> Year r \<le> end_year) (rows df) = []"
    using assms by (auto simp: analyze_def filtered_df_def Let_def split: sum.splits)
  then show ?thesis
    by (simp add: filtered_df_def columns_def filter_empty_conv)
qed

section \<open>Change metrics\<close>

lemma change_metrics_first:
  assumes "target \<in> set (columns df)"
    and "filter (\<lambda>r. Year r = start_year) (rows df) = r0 # rest0"
    and "filter (\<lambda>r. Year r = end_year) (rows df) = r1 # rest1"
  shows "change_metrics df start_year end_year target =
     (case py_int (cell_at r0 target) of Inl x \<Rightarrow> Inl x
      | Inr i \<Rightarrow> (case py_int (cell_at r1 target) of Inl x \<Rightarrow> Inl x
          | Inr f \<Rightarrow> (case pct_change i f of Inl x \<Rightarrow> Inl x
              | Inr p \<Rightarrow> Inr (Inr \<lparr> initial_value = i, final_value = f,
                                   percent_change = p \<rparr>))))"
  using assms by (simp add: change_metrics_def loc_year_col)

lemma change_metrics_absent:
  assumes "target \<in> set (columns df)"
  shows "change_metrics df start_year end_year target = Inr (Inl n) \<longleftrightarrow>
     n = YearNotFoundError \<and>
     (start_year \<notin> Year ` set (rows df) \<or> end_year \<notin> Year ` set (rows df))"
proof -
  let ?i = "filter (\<lambda>r. Year r = start_year) (rows df)"
  let ?f = "filter (\<lambda>r. Year r = end_year) (rows df)"
  have e: "(?i = [] \<or> ?f = []) \<longleftrightarrow>
      (start_year \<notin> Year ` set (rows df) \<or> end_year \<notin> Year ` set (rows df))"
    by (simp only: filter_empty_image)
  show ?thesis
  proof (cases "?i = [] \<or> ?f = []")
    case True
    then have "change_metrics df start_year end_year target = Inr (Inl YearNotFoundError)"
      using assms by (auto simp: change_metrics_def loc_year_col split: list.splits)
    with True e show ?thesis by auto
  next
    case False
    then obtain r0 rest0 r1 rest1 where "?i = r0 # rest0" "?f = r1 # rest1"
      by (meson list.exhaust)
    from change_metrics_first [OF assms this]
    have "change_metrics df start_year end_year target \<noteq> Inr (Inl n)"
      by (auto split: sum.splits)
    with False e show ?thesis by auto
  qed
qed

lemma change_metrics_NaN:
  assumes "target \<in> set (columns df)"
    and "filter (\<lambda>r. Year r = start_year) (rows df) = r0 # rest0"
    and "filter (\<lambda>r. Year r = end_year) (rows df) = r1 # rest1"
    and "cell_at r0 target = NaN"
  shows "change_metrics df start_year end_year target = Inl ValueError"
  using change_metrics_first [OF assms(1,2,3)] assms(4) by (simp add: py_int_def)

text \<open>
  On rows that hold numbers: with \<open>a\<close> and \<open>b\<close> the numbers of the first rows of the two
  years in the target column, the change metrics are \<open>initial = int(a)\<close>,
  \<open>final = int(b)\<close> and the percent change of line 76.
\<close>

lemma percent_change_formula:
  assumes "target \<in> set (columns df)"
    and "find (\<lambda>r. Year r = start_year) (rows df) = Some r0"
    and "find (\<lambda>r. Year r = end_year) (rows df) = Some r1"
    and "cell_at r0 target = Num a" and "cell_at r1 target = Num b"
  shows "change_metrics df start_year end_year target =
     (if trunc a \<noteq> 0 then
        (case true_div (trunc b - trunc a) (trunc a) of
           Inl x \<Rightarrow> Inl x
         | Inr q \<Rightarrow> Inr (Inr \<lparr> initial_value = trunc a, final_value = trunc b,
                                percent_change = round2 (float_mul q 100) \<rparr>))
      else Inr (Inr \<lparr> initial_value = trunc a, final_value = trunc b,
                         percent_change = Num 0 \<rparr>))"
proof -
  from assms(2) obtain rest0 where i: "filter (\<lambda>r. Year r = start_year) (rows df) = r0 # rest0"
    using find_filter by fastforce
  from assms(3) obtain rest1 where f: "filter (\<lambda>r. Year r = end_year) (rows df) = r1 # rest1"
    using find_filter by fastforce
  show ?thesis
    using change_metrics_first [OF assms(1) i f] assms(4,5)
    by (simp add: py_int_def pct_change_def split: sum.splits)
qed

text \<open>
  C5: the change metrics read the rows of the whole table whose Year is \<open>start_year\<close> and
  \<open>end_year\<close>, not the filtered view (whatever view the tab is given, its metrics are those
  of the table). They are the YearNotFoundError notice if and only if one of the two years
  is the Year of no row; they are no other notice; and that notice and its message differ
  from those of EmptyRangeError.
\<close>

theorem year_not_found:
  assumes "target \<in> set (columns df)"
  shows "(change_metrics df start_year end_year target = Inr (Inl YearNotFoundError) \<longleftrightarrow>
            start_year \<notin> Year ` set (rows df) \<or> end_year \<notin> Year ` set (rows df)) \<and>
         (\<forall>n. change_metrics df start_year end_year target = Inr (Inl n)
            \<longrightarrow> n = YearNotFoundError) \<and>
         (\<forall>fdf t1. tab1 df fdf start_year end_year target = Inr t1 \<longrightarrow>
            change_metrics df start_year end_year target = Inr (change t1)) \<and>
         YearNotFoundError \<noteq> EmptyRangeError \<and>
         message YearNotFoundError \<noteq> message EmptyRangeError"
proof -
  have "\<And>fdf t1. tab1 df fdf start_year end_year target = Inr t1 \<Longrightarrow>
            change_metrics df start_year end_year target = Inr (change t1)"
    by (auto simp: tab1_def split: sum.splits)
  moreover have "message YearNotFoundError \<noteq> message EmptyRangeError"
    by (simp add: message_def)
  ultimately show ?thesis
    using change_metrics_absent [OF assms] by auto
qed

text \<open>
  C10: when several rows have the Year \<open>start_year\<close> (or \<open>end_year\<close>), the change metrics
  take the value of the first of them in the order of the table: with \<open>r\<close> the first row of
  Year \<open>start_year\<close> and \<open>r'\<close> the first of Year \<open>end_year\<close>, the result is computed from the
  cells of \<open>r\<close> and \<open>r'\<close> alone, whatever rows follow them.
\<close>

theorem first_duplicate_used:
  assumes "target \<in> set (columns df)"
    and "rows df = pre @ r # post" and "\<forall>x\<in>set pre. Year x \<noteq> start_year"
    and "Year r = start_year"
    and "rows df = pre' @ r' # post'" and "\<forall>x\<in>set pre'. Year x \<noteq> end_year"
    and "Year r' = end_year"
  shows "change_metrics df start_year end_year target =
     (case py_int (cell_at r target) of Inl x \<Rightarrow> Inl x
      | Inr i \<Rightarrow> (case py_int (cell_at r' target) of Inl x \<Rightarrow> Inl x
          | Inr f \<Rightarrow> (case pct_change i f of Inl x \<Rightarrow> Inl x
              | Inr p \<Rightarrow> Inr (Inr \<lparr> initial_value = i, final_value = f,
                                   percent_change = p \<rparr>))))"
proof -
  have i: "filter (\<lambda>r. Year r = start_year) (rows df)
             = r # filter (\<lambda>r. Year r = start_year) post"
    using assms(2,3,4) by (simp add: filter_first)
  have f: "filter (\<lambda>r. Year r = end_year) (rows df)
             = r' # filter (\<lambda>r. Year r = end_year) post'"
    using assms(5,6,7) by (simp add: filter_first)
  show ?thesis by (rule change_metrics_first [OF assms(1) i f])
qed

section \<open>Percent of total\<close>



text \<open>
  C8: without a Total column and with at least one selected series, the percentage part of
  the comparison is the MissingTotalError notice, and the comparison still gives the chart
  of the absolute values, one line for every selected series with the value of every row of
  the filtered view.
\<close>

theorem missing_total:
  assumes "''Total'' \<notin> set (columns df)" and "compare_targets \<noteq> []"
    and "set compare_targets \<subseteq> set (compare_options df)"
    and "fdf = filtered_df df start_year end_year"
  shows "pct_compare fdf compare_targets = Inr (Inl MissingTotalError) \<and>
         tab2 fdf compare_targets =
           Inr (Inr \<lparr> absolute = map (\<lambda>c. (c, map (\<lambda>r. (Year r, cell_at r c)) (rows fdf)))
                                   compare_targets,
                      percent = Inl MissingTotalError \<rparr>)"
proof -
  have cs: "columns fdf = columns df" by (simp add: assms(4) columns_filtered)
  have p: "pct_compare fdf compare_targets = Inr (Inl MissingTotalError)"
    using assms(1) cs by (simp add: pct_compare_def)
  have "\<forall>c\<in>set compare_targets. getitem fdf c = Inr (map (\<lambda>r. cell_at r c) (rows fdf))"
    using assms(3) cs compare_options_columns [of _ df] by (auto simp: getitem_def)
  from lines_of_map [OF this] p assms(2) show ?thesis
    by (simp add: tab2_def)
qed

section \<open>The loaded table\<close>

lemma years_load_clean:
  "mset (map Year (rows (load_clean parse raw))) = mset (map raw_Year (body raw))"
proof -
  have "mset (map Year (rows (load_clean parse raw)))
          = image_mset Year (mset (sort_key Year (map (clean_row parse (header raw)) (body raw))))"
    by (simp add: load_clean_def)
  also have "\<dots> = image_mset Year (mset (map (clean_row parse (header raw)) (body raw)))"
    by (simp only: mset_sort)
  also have "\<dots> = mset (map raw_Year (body raw))"
    by (simp add: Year_clean_row multiset.map_comp comp_def)
  finally show ?thesis .
qed

text \<open>
  C6, as amended: after loading, the rows are sorted ascending by Year and their years are
  the years of the lines of the file, each as often as in the file; so the rows are unique
  per Year exactly when no two lines of the file have the same year. The loader removes no
  line.
\<close>

theorem load_clean_sorted:
  "sorted (map Year (rows (load_clean parse raw))) \<and>
   mset (map Year (rows (load_clean parse raw))) = mset (map raw_Year (body raw)) \<and>
   (distinct (map Year (rows (load_clean parse raw))) \<longleftrightarrow> distinct (map raw_Year (body raw)))"
proof -
  have "sorted (map Year (rows (load_clean parse raw)))"
    by (simp add: load_clean_def)
  moreover have "distinct (map Year (rows (load_clean parse raw)))
                   \<longleftrightarrow> distinct (map raw_Year (body raw))"
    by (rule mset_eq_imp_distinct_iff [OF years_load_clean])
  ultimately show ?thesis using years_load_clean by blast
qed

section \<open>The theorems on the example inputs\<close>

lemmas load_defs = load_clean_def clean_row_def clean_names_def Let_def unnamed_def strip_def
  is_space_def to_numeric_def decimal_def digit_def columns_def cell_at_def

theorem year_bounds_defined_witness:
  "year_bounds (load_clean decimal empty_raw) = Inl ValueError \<and>
   year_bounds example_df = Inr (2015, 2020) \<and>
   script decimal empty_raw 2015 2020 ''Black'' [''Black''] = Inl ValueError"
proof -
  have e: "rows (load_clean decimal empty_raw) = []"
    by (simp add: load_clean_def empty_raw_def)
  have b: "body empty_raw = []"
    by (simp add: empty_raw_def)
  have n: "rows example_df \<noteq> []"
    by (simp add: example_df_def load_clean_def example_raw_def)
  have y: "Year ` set (rows example_df) = {2015, 2020}"
    by (auto simp add: example_df_def load_clean_def example_raw_def Year_clean_row)
  from year_bounds_defined [of "load_clean decimal empty_raw" empty_raw decimal 2015 2020
      "''Black''" "[''Black'']"] e b
  have 1: "year_bounds (load_clean decimal empty_raw) = Inl ValueError"
    and 3: "script decimal empty_raw 2015 2020 ''Black'' [''Black''] = Inl ValueError"
    by simp_all
  from year_bounds_defined [of example_df empty_raw decimal 2015 2020 "''Black''" "[''Black'']"] n y
  have 2: "year_bounds example_df = Inr (2015, 2020)"
    by simp
  from 1 2 3 show ?thesis by simp
qed

theorem validate_range_witness:
  "analyze example_df 2020 2015 ''Black'' [''Black''] = Inr (Inl InvalidRangeError) \<and>
   analyze example_df 2015 2020 ''Black'' [''Black''] \<noteq> Inr (Inl InvalidRangeError)"
proof -
  have a: "(2020::int) > 2015" and b: "(2015::int) \<le> 2020" by simp_all
  from validate_range [of 2015 2020 example_df "''Black''" "[''Black'']"] a
  have 1: "analyze example_df 2020 2015 ''Black'' [''Black''] = Inr (Inl InvalidRangeError)"
    by blast
  from validate_range [of 2020 2015 example_df "''Black''" "[''Black'']"] b
  have 2: "analyze example_df 2015 2020 ''Black'' [''Black''] \<noteq> Inr (Inl InvalidRangeError)"
    by blast
  from 1 2 show ?thesis by simp
qed

lemma rows_example_df:
  "rows example_df = [clean_row decimal (header example_raw) (body example_raw ! 1),
                      clean_row decimal (header example_raw) (body example_raw ! 0)]"
  by (simp add: example_df_def load_clean_def example_raw_def Year_clean_row)

theorem filter_view_witness:
  "(2016::int) \<le> 2020 \<and>
   map Year (rows (filtered_df example_df 2016 2020)) = [2020] \<and>
   analyze example_df 2016 2020 ''Black'' [''Black''] \<noteq> Inr (Inl EmptyRangeError) \<and>
   analyze example_df 2016 2019 ''Black'' [''Black''] = Inr (Inl EmptyRangeError)"
proof -
  have h: "(2016::int) \<le> 2020" by simp
  have h': "(2016::int) \<le> 2019" by simp
  have a: "\<not> (\<forall>r\<in>set (rows example_df). \<not> (2016 \<le> Year r \<and> Year r \<le> 2020))"
    by (simp add: rows_example_df Year_clean_row example_raw_def)
  have b: "\<forall>r\<in>set (rows example_df). \<not> (2016 \<le> Year r \<and> Year r \<le> 2019)"
    by (simp add: rows_example_df Year_clean_row example_raw_def)
  have f: "map Year (filter (\<lambda>r. 2016 \<le> Year r \<and> Year r \<le> 2020) (rows example_df)) = [2020]"
    by (simp add: rows_example_df Year_clean_row example_raw_def)
  from filter_view [OF h, of example_df "''Black''" "[''Black'']"] a f
    filter_view [OF h', of example_df "''Black''" "[''Black'']"] b
  show ?thesis by simp
qed

lemma rows_zero_df:
  "rows zero_df = [clean_row decimal (header zero_raw) (body zero_raw ! 0),
                   clean_row decimal (header zero_raw) (body zero_raw ! 1)]"
  by (simp add: zero_df_def load_clean_def zero_raw_def Year_clean_row)

text \<open>The example of the spec, and a category that starts at zero.\<close>

lemma change_metrics_examples:
  "change_metrics example_df 2015 2020 ''Black'' =
     Inr (Inr \<lparr> initial_value = 2200000, final_value = 2184000,
                percent_change = Num (- 1643813863990231 / 2251799813685248) \<rparr>) \<and>
   change_metrics zero_df 2015 2020 ''Other'' =
     Inr (Inr \<lparr> initial_value = 0, final_value = 12, percent_change = Num 0 \<rparr>)"
proof -
  let ?r0 = "rows example_df ! 0" and ?r1 = "rows example_df ! 1"
  have c: "''Black'' \<in> set (columns example_df)"
    by (simp add: example_df_def example_raw_def load_defs)
  have a: "py_int (cell_at ?r0 ''Black'') = Inr 2200000"
    by (simp add: rows_example_df example_raw_def load_defs py_int_def trunc_def)
  have b: "py_int (cell_at ?r1 ''Black'') = Inr 2184000"
    by (simp add: rows_example_df example_raw_def load_defs py_int_def trunc_def)
  have f0: "filter (\<lambda>r. Year r = 2015) (rows example_df) = ?r0 # []"
    by (simp add: rows_example_df Year_clean_row example_raw_def)
  have f1: "filter (\<lambda>r. Year r = 2020) (rows example_df) = ?r1 # []"
    by (simp add: rows_example_df Year_clean_row example_raw_def)
  from change_metrics_first [OF c f0 f1] a b pct_change_example [THEN conjunct1]
  have 1: "change_metrics example_df 2015 2020 ''Black'' =
     Inr (Inr \<lparr> initial_value = 2200000, final_value = 2184000,
                percent_change = Num (- 1643813863990231 / 2251799813685248) \<rparr>)"
    by simp
  let ?z0 = "rows zero_df ! 0" and ?z1 = "rows zero_df ! 1"
  have zc: "''Other'' \<in> set (columns zero_df)"
    by (simp add: zero_df_def zero_raw_def load_defs)
  have z0: "filter (\<lambda>r. Year r = 2015) (rows zero_df) = ?z0 # []"
    by (simp add: rows_zero_df Year_clean_row zero_raw_def)
  have z1: "filter (\<lambda>r. Year r = 2020) (rows zero_df) = ?z1 # []"
    by (simp add: rows_zero_df Year_clean_row zero_raw_def)
  have za: "py_int (cell_at ?z0 ''Other'') = Inr 0"
    by (simp add: rows_zero_df zero_raw_def load_defs py_int_def trunc_def)
  have zb: "py_int (cell_at ?z1 ''Other'') = Inr 12"
    by (simp add: rows_zero_df zero_raw_def load_defs py_int_def trunc_def)
  from change_metrics_first [OF zc z0 z1] za zb pct_change_zero [of 12]
  have 2: "change_metrics zero_df 2015 2020 ''Other'' =
     Inr (Inr \<lparr> initial_value = 0, final_value = 12, percent_change = Num 0 \<rparr>)"
    by simp
  from 1 2 show ?thesis by simp
qed

lemma rows_gap_end_df:
  "rows gap_end_df = [clean_row decimal (header gap_end_raw) (body gap_end_raw ! 0),
                      clean_row decimal (header gap_end_raw) (body gap_end_raw ! 1)]"
  by (simp add: gap_end_df_def load_clean_def gap_end_raw_def Year_clean_row)

text \<open>
  C1: on rows that hold numbers the change metrics are those of the claim (lemma
  \<open>percent_change_formula\<close>): on the example of the spec the percent change is the double
  \<open>-0.73\<close>. But rows at both years do not suffice. On the file \<open>gap_end_raw\<close> the table
  has a row for 2015 and a row for 2020 and the initial value 2200000 is not zero; the Black
  cell of 2020 is NaN, \<open>int(final_val.iloc[0])\<close> raises \<open>ValueError\<close>, and no percent
  change is computed: the run ends there.
\<close>

theorem change_metrics_missing_final:
  "change_metrics example_df 2015 2020 ''Black'' =
     Inr (Inr \<lparr> initial_value = 2200000, final_value = 2184000,
                percent_change = Num (- 1643813863990231 / 2251799813685248) \<rparr>) \<and>
   map (\<lambda>r. (Year r, cell_at r ''Black'')) (rows gap_end_df)
     = [(2015, Num 2200000), (2020, NaN)] \<and>
   py_int (Num 2200000) = Inr 2200000 \<and>
   py_int NaN = Inl ValueError \<and>
   change_metrics gap_end_df 2015 2020 ''Black'' = Inl ValueError \<and>
   analyze gap_end_df 2015 2020 ''Black'' [''Black''] = Inl ValueError \<and>
   script decimal gap_end_raw 2015 2020 ''Black'' [''Black''] = Inl ValueError"
proof -
  have 1: "map (\<lambda>r. (Year r, cell_at r ''Black'')) (rows gap_end_df)
             = [(2015, Num 2200000), (2020, NaN)]"
    by (simp add: rows_gap_end_df gap_end_raw_def load_defs)
  have 2: "py_int (Num 2200000) = Inr 2200000" and 3: "py_int NaN = Inl ValueError"
    by (simp_all add: py_int_def trunc_def)
  have 4: "change_metrics gap_end_df 2015 2020 ''Black'' = Inl ValueError"
    by (simp add: change_metrics_def loc_year_def getitem_def py_int_def trunc_def
        rows_gap_end_df gap_end_raw_def gap_end_df_def load_defs)
  have 5: "analyze gap_end_df 2015 2020 ''Black'' [''Black''] = Inl ValueError"
    by (simp add: analyze_def tab1_def 4 filtered_df_def rows_gap_end_df Year_clean_row
        gap_end_raw_def)
  have 6: "script decimal gap_end_raw 2015 2020 ''Black'' [''Black''] = Inl ValueError"
    using 5 by (simp add: script_def gap_end_df_def [symmetric] year_bounds_def
        min_year_nonempty max_year_nonempty rows_gap_end_df)
  from change_metrics_examples [THEN conjunct1] 1 2 3 4 5 6 show ?thesis by simp
qed

lemma rows_repeated_df:
  "rows repeated_df = [clean_row decimal (header repeated_raw) (body repeated_raw ! 1),
                       clean_row decimal (header repeated_raw) (body repeated_raw ! 2),
                       clean_row decimal (header repeated_raw) (body repeated_raw ! 0)]"
  by (simp add: repeated_df_def load_clean_def repeated_raw_def Year_clean_row)

lemma rows_no_total_df:
  "rows no_total_df = [clean_row decimal (header no_total_raw) (body no_total_raw ! 0),
                       clean_row decimal (header no_total_raw) (body no_total_raw ! 1)]"
  by (simp add: no_total_df_def load_clean_def no_total_raw_def Year_clean_row)

lemma rows_gap_df:
  "rows gap_df = [clean_row decimal (header gap_raw) (body gap_raw ! 0),
                  clean_row decimal (header gap_raw) (body gap_raw ! 1)]"
  by (simp add: gap_df_def load_clean_def gap_raw_def Year_clean_row)

theorem year_not_found_witness:
  "change_metrics example_df 2016 2020 ''Black'' = Inr (Inl YearNotFoundError) \<and>
   rows (filtered_df example_df 2016 2020) \<noteq> [] \<and>
   change_metrics example_df 2015 2020 ''Black'' \<noteq> Inr (Inl YearNotFoundError)"
proof -
  have c: "''Black'' \<in> set (columns example_df)"
    by (simp add: example_df_def example_raw_def load_defs)
  have y: "Year ` set (rows example_df) = {2015, 2020}"
    by (simp add: rows_example_df Year_clean_row example_raw_def)
  have f: "rows (filtered_df example_df 2016 2020) \<noteq> []"
    by (simp add: filtered_df_def rows_example_df Year_clean_row example_raw_def)
  from year_not_found [OF c, of 2016 2020] y
  have 1: "change_metrics example_df 2016 2020 ''Black'' = Inr (Inl YearNotFoundError)"
    by simp
  from year_not_found [OF c, of 2015 2020] y
  have 2: "change_metrics example_df 2015 2020 ''Black'' \<noteq> Inr (Inl YearNotFoundError)"
    by simp
  from 1 f 2 show ?thesis by simp
qed

theorem first_duplicate_used_witness:
  "map (\<lambda>r. (Year r, cell_at r ''Black'')) (rows repeated_df)
     = [(2015, Num 2200000), (2015, Num 1092000), (2020, Num 2184000)] \<and>
   change_metrics repeated_df 2015 2020 ''Black'' =
     Inr (Inr \<lparr> initial_value = 2200000, final_value = 2184000,
                percent_change = Num (- 1643813863990231 / 2251799813685248) \<rparr>)"
proof -
  let ?r = "rows repeated_df ! 0" and ?d = "rows repeated_df ! 1" and ?r' = "rows repeated_df ! 2"
  have c: "''Black'' \<in> set (columns repeated_df)"
    by (simp add: repeated_df_def repeated_raw_def load_defs)
  have s: "rows repeated_df = [] @ ?r # [?d, ?r']"
    by (simp add: rows_repeated_df)
  have sp: "\<forall>x\<in>set []. Year x \<noteq> 2015"
    by simp
  have sy: "Year ?r = 2015"
    by (simp add: rows_repeated_df Year_clean_row repeated_raw_def)
  have e: "rows repeated_df = [?r, ?d] @ ?r' # []"
    by (simp add: rows_repeated_df)
  have ep: "\<forall>x\<in>set [?r, ?d]. Year x \<noteq> 2020"
    by (simp add: rows_repeated_df Year_clean_row repeated_raw_def)
  have ey: "Year ?r' = 2020"
    by (simp add: rows_repeated_df Year_clean_row repeated_raw_def)
  have m: "map (\<lambda>r. (Year r, cell_at r ''Black'')) (rows repeated_df)
     = [(2015, Num 2200000), (2015, Num 1092000), (2020, Num 2184000)]"
    by (simp add: rows_repeated_df repeated_raw_def load_defs)
  have a: "py_int (cell_at ?r ''Black'') = Inr 2200000"
    by (simp add: rows_repeated_df repeated_raw_def load_defs py_int_def trunc_def)
  have b: "py_int (cell_at ?r' ''Black'') = Inr 2184000"
    by (simp add: rows_repeated_df repeated_raw_def load_defs py_int_def trunc_def)
  have p: "pct_change 2200000 2184000 = Inr (Num (- 1643813863990231 / 2251799813685248))"
    by (rule pct_change_example [THEN conjunct1])
  from first_duplicate_used [OF c s sp sy e ep ey] a b p m show ?thesis
    by simp
qed


theorem missing_total_witness:
  "tab2 (filtered_df no_total_df 2015 2020) [''Black'', ''Asian''] =
     Inr (Inr \<lparr> absolute = [(''Black'', [(2015, Num 2200000), (2020, Num 2184000)]),
                             (''Asian'', [(2015, Num 5400000), (2020, Num 5900000)])],
                percent = Inl MissingTotalError \<rparr>)"
proof -
  let ?f = "filtered_df no_total_df 2015 2020"
  have t: "''Total'' \<notin> set (columns no_total_df)"
    by (simp add: no_total_df_def no_total_raw_def load_defs)
  have n: "[''Black'', ''Asian''] \<noteq> []"
    by simp
  have o: "set [''Black'', ''Asian''] \<subseteq> set (compare_options no_total_df)"
    by (simp add: compare_options_def no_total_df_def no_total_raw_def load_defs)
  have r: "map (\<lambda>c. (c, map (\<lambda>r. (Year r, cell_at r c)) (rows ?f))) [''Black'', ''Asian'']
             = [(''Black'', [(2015, Num 2200000), (2020, Num 2184000)]),
                (''Asian'', [(2015, Num 5400000), (2020, Num 5900000)])]"
    by (simp add: filtered_df_def rows_no_total_df no_total_raw_def load_defs)
  from missing_total [OF t n o refl, of 2015 2020] r show ?thesis
    by simp
qed

theorem load_clean_sorted_witness:
  "map Year (rows (load_clean decimal example_raw)) = [2015, 2020] \<and>
   sorted (map Year (rows (load_clean decimal example_raw))) \<and>
   distinct (map Year (rows (load_clean decimal example_raw))) \<and>
   sorted (map Year (rows (load_clean decimal repeated_raw))) \<and>
   \<not> distinct (map Year (rows (load_clean decimal repeated_raw)))"
proof -
  have d: "distinct (map raw_Year (body example_raw))"
    by (simp add: example_raw_def)
  have n: "\<not> distinct (map raw_Year (body repeated_raw))"
    by (simp add: repeated_raw_def)
  have m: "map Year (rows (load_clean decimal example_raw)) = [2015, 2020]"
    by (simp add: load_clean_def example_raw_def Year_clean_row)
  from load_clean_sorted [of decimal example_raw] load_clean_sorted [of decimal repeated_raw]
    d n m
  show ?thesis by simp
qed

text \<open>
  The file \<open>repeated_raw\<close> has two lines for 2015: its loaded rows are sorted and not
  unique per Year.
\<close>

theorem load_clean_unique_counterexample:
  "\<not> (sorted (map Year (rows (load_clean decimal repeated_raw))) \<and>
      distinct (map Year (rows (load_clean decimal repeated_raw))))"
  by (simp add: load_clean_def repeated_raw_def Year_clean_row)

text \<open>
  C2: a cell that is no number is loaded as NaN and the percentages of its row are NaN,
  but the change metrics of a year whose target cell is NaN are no missing value:
  \<open>int(initial_val.iloc[0])\<close> raises \<open>ValueError\<close> and the run ends there. On the file
  \<open>gap_raw\<close>, with the range 2015 to 2020 and the target Black:
\<close>

theorem missing_value_crash:
  "to_numeric decimal ''unknown'' = NaN \<and>
   map (\<lambda>r. (Year r, cell_at r ''Black'')) (rows gap_df) = [(2015, NaN), (2020, Num 2184000)] \<and>
   pct_chart (filtered_df gap_df 2015 2020) ''Black'' =
     Inr (Some (Inr [(2015, NaN), (2020, Num (2184000 / 39368078 * 100))])) \<and>
   change_metrics gap_df 2015 2020 ''Black'' = Inl ValueError \<and>
   analyze gap_df 2015 2020 ''Black'' [''Black''] = Inl ValueError \<and>
   script decimal gap_raw 2015 2020 ''Black'' [''Black''] = Inl ValueError"
proof -
  have 1: "to_numeric decimal ''unknown'' = NaN"
    by (simp add: to_numeric_def decimal_def digit_def)
  have 2: "map (\<lambda>r. (Year r, cell_at r ''Black'')) (rows gap_df)
             = [(2015, NaN), (2020, Num 2184000)]"
    by (simp add: rows_gap_df gap_raw_def load_defs)
  have cols: "columns gap_df = [''Year'', ''Total'', ''Black'']"
    by (simp add: gap_df_def gap_raw_def load_defs)
  have 3: "pct_chart (filtered_df gap_df 2015 2020) ''Black'' =
     Inr (Some (Inr [(2015, NaN), (2020, Num (2184000 / 39368078 * 100))]))"
    by (simp add: pct_chart_def pct_series_def getitem_def plot_def filtered_df_def
        rows_gap_df gap_raw_def gap_df_def load_defs)
  have 4: "change_metrics gap_df 2015 2020 ''Black'' = Inl ValueError"
    by (simp add: change_metrics_def loc_year_def getitem_def py_int_def
        rows_gap_df gap_raw_def gap_df_def load_defs)
  have 5: "analyze gap_df 2015 2020 ''Black'' [''Black''] = Inl ValueError"
    by (simp add: analyze_def tab1_def 4 filtered_df_def rows_gap_df Year_clean_row gap_raw_def)
  have 6: "script decimal gap_raw 2015 2020 ''Black'' [''Black''] = Inl ValueError"
    using 5 by (simp add: script_def gap_df_def [symmetric] year_bounds_def
        min_year_nonempty max_year_nonempty rows_gap_df)
  from 1 2 3 4 5 6 show ?thesis by simp
qed

end
